theory Spec2Isabelle
  imports Main "HOL-Library.Multiset"
begin

section \<open>Data model (types.ts)\<close>

text \<open>
  JavaScript strings are modelled as \<open>string\<close>; a literal outside ASCII is written as the
  bytes of its UTF-8 encoding. JavaScript numbers that hold amounts, quantities and
  timestamps are modelled as unbounded integers; where the source can see \<open>NaN\<close> or
  \<open>undefined\<close> (the fields of the add-menu form) the model says so with \<open>jsnumber\<close> and
  \<open>option\<close>.
\<close>

datatype category = premium | regular | diet

datatype jsnumber = NaN | Num int

text \<open>\<open>Omit<MenuItem, 'id'>\<close>: the record handed to the store, which assigns the id.\<close>

record NewMenuItem =
  name :: string
  description :: string
  price :: int
  imageUrl :: string
  category :: category
  calories :: "jsnumber option"
  available :: bool

record MenuItem = NewMenuItem +
  id' :: string

record CartItem = MenuItem +
  quantity :: int

datatype order_status = pending | preparing | delivering | completed | cancelled

datatype delivery_time = lunch | dinner

text \<open>The four values the checkout form hands to \<open>onSubmit\<close>.\<close>

record CheckoutDetails =
  address :: string
  contact :: string
  deliveryDate :: string
  deliveryTime :: delivery_time

text \<open>\<open>Omit<Order, 'id'>\<close>: the order record as it is written to the store.\<close>

record OrderData = CheckoutDetails +
  userId :: string
  userEmail :: string
  items :: "CartItem list"
  totalAmount :: int
  status :: order_status
  createdAt :: int

record Order = OrderData +
  orderId :: string

text \<open>The fields of the identity provider's user object that the application reads.\<close>

record FirebaseUser =
  fb_uid :: string
  fb_email :: "string option"
  fb_displayName :: "string option"
  fb_photoURL :: "string option"

record UserProfile =
  uid :: string
  email :: "string option"
  displayName :: "string option"
  photoURL :: "string option"
  isAdmin :: bool

definition ADMIN_EMAIL :: string where
  "ADMIN_EMAIL = ''acehwan69@gmail.com''"

datatype toast_type = success | error

record Toast =
  msg :: string
  type :: toast_type

section \<open>Identity session: the auth listener\<close>

text \<open>
  The callback of \<open>onAuthStateChanged\<close>: the value it passes to \<open>setUser\<close>. The provider
  delivers \<open>null\<close> (here \<open>None\<close>) when nobody is signed in.
\<close>

definition authListener :: "FirebaseUser option \<Rightarrow> UserProfile option" where
  "authListener firebaseUser =
     (case firebaseUser of
        Some fu \<Rightarrow> Some \<lparr> uid = fb_uid fu, email = fb_email fu,
                          displayName = fb_displayName fu, photoURL = fb_photoURL fu,
                          isAdmin = (fb_email fu = Some ADMIN_EMAIL) \<rparr>
      | None \<Rightarrow> None)"

text \<open>\<open>user?.isAdmin\<close> read as a condition: absent user is falsy.\<close>

definition userIsAdmin :: "UserProfile option \<Rightarrow> bool" where
  "userIsAdmin u = (case u of None \<Rightarrow> False | Some p \<Rightarrow> isAdmin p)"

section \<open>Dates\<close>

text \<open>
  A \<open>Date\<close> is its time value: milliseconds since 1970-01-01T00:00:00Z. The local time
  zone is a parameter \<open>tz\<close>, the milliseconds that local time is ahead of UTC (for
  Asia/Seoul \<open>32400000\<close>), taken as fixed over the days in question.
\<close>

definition msPerDay :: int where
  "msPerDay = 86400000"

text \<open>Day number to proleptic Gregorian year, month and day of month.\<close>

definition civilFromDays :: "int \<Rightarrow> int \<times> int \<times> int" where
  "civilFromDays n =
     (let z = n + 719468;
          era = z div 146097;
          doe = z mod 146097;
          yoe = (doe - doe div 1460 + doe div 36524 - doe div 146096) div 365;
          doy = doe - (365 * yoe + yoe div 4 - yoe div 100);
          mp = (5 * doy + 2) div 153;
          d = doy - (153 * mp + 2) div 5 + 1;
          m = (if mp < 10 then mp + 3 else mp - 9);
          y = yoe + era * 400 + (if m \<le> 2 then 1 else 0)
      in (y, m, d))"

definition digitChar :: "int \<Rightarrow> char" where
  "digitChar n = ''0123456789'' ! nat (n mod 10)"

definition pad2 :: "int \<Rightarrow> string" where
  "pad2 n = [digitChar (n div 10), digitChar n]"

definition pad4 :: "int \<Rightarrow> string" where
  "pad4 n = [digitChar (n div 1000), digitChar (n div 100), digitChar (n div 10), digitChar n]"

definition pad6 :: "int \<Rightarrow> string" where
  "pad6 n = [digitChar (n div 100000), digitChar (n div 10000)] @ pad4 n"

text \<open>The year of an ISO string: four digits, or a sign and six digits outside 0..9999.\<close>

definition isoYear :: "int \<Rightarrow> string" where
  "isoYear y = (if 0 \<le> y \<and> y \<le> 9999 then pad4 y
                else if y < 0 then CHR ''-'' # pad6 (- y) else CHR ''+'' # pad6 y)"

text \<open>\<open>new Date(t).toISOString().split('T')[0]\<close>: the calendar date of \<open>t\<close> in UTC.\<close>

definition isoDate :: "int \<Rightarrow> string" where
  "isoDate t =
     (case civilFromDays (t div msPerDay) of
        (y, m, d) \<Rightarrow> isoYear y @ ''-'' @ pad2 m @ ''-'' @ pad2 d)"

section \<open>Checkout form\<close>

text \<open>JavaScript truthiness of a string: \<open>!s\<close> holds exactly for the empty string.\<close>

definition truthyStr :: "string \<Rightarrow> bool" where
  "truthyStr s = (s \<noteq> [])"

text \<open>The \<open>disabled\<close> attribute of the submit button of the checkout modal.\<close>

definition submitDisabled :: "'a CheckoutDetails_scheme \<Rightarrow> bool" where
  "submitDisabled f =
     (\<not> truthyStr (address f) \<or> \<not> truthyStr (contact f) \<or> \<not> truthyStr (deliveryDate f))"

text \<open>
  \<open>d.setDate(d.getDate() + 1)\<close>: the same local time of day on the next local calendar
  day, which under a fixed offset is one day of milliseconds later.
\<close>

definition setDatePlusOne :: "int \<Rightarrow> int \<Rightarrow> int" where
  "setDatePlusOne tz t = ((t + tz) + msPerDay) - tz"

text \<open>
  The effect of the checkout modal with dependency \<open>isOpen\<close>, acting on the form's
  fields; \<open>now\<close> is \<open>new Date()\<close>.
\<close>

definition checkoutOpenEffect :: "int \<Rightarrow> int \<Rightarrow> bool \<Rightarrow> CheckoutDetails \<Rightarrow> CheckoutDetails" where
  "checkoutOpenEffect tz now isOpen f =
     (if isOpen then
        (let tomorrow = setDatePlusOne tz now
         in f\<lparr>deliveryDate := isoDate tomorrow\<rparr>)
      else f)"

text \<open>The \<open>min\<close> attribute of the date input, evaluated when the modal renders.\<close>

definition minDeliveryDate :: "int \<Rightarrow> string" where
  "minDeliveryDate now = isoDate now"

section \<open>Local calendar\<close>

text \<open>
  The calendar date that a clock in the local zone shows at \<open>t\<close>, in the same
  \<open>YYYY-MM-DD\<close> form: what "today" and "tomorrow" mean to the user.
\<close>

definition localDate :: "int \<Rightarrow> int \<Rightarrow> string" where
  "localDate tz t = isoDate (t + tz)"

definition localDay :: "int \<Rightarrow> int \<Rightarrow> int" where
  "localDay tz t = (t + tz) div msPerDay"

text \<open>
  The short weekday names of the \<open>ko-KR\<close> locale, Sunday first, in UTF-8;
  day number 0 (1970-01-01) was a Thursday.
\<close>

definition weekdayShort :: "int \<Rightarrow> string" where
  "weekdayShort w =
     (if w = 0 then [CHR 0xEC, CHR 0x9D, CHR 0xBC]
      else if w = 1 then [CHR 0xEC, CHR 0x9B, CHR 0x94]
      else if w = 2 then [CHR 0xED, CHR 0x99, CHR 0x94]
      else if w = 3 then [CHR 0xEC, CHR 0x88, CHR 0x98]
      else if w = 4 then [CHR 0xEB, CHR 0xAA, CHR 0xA9]
      else if w = 5 then [CHR 0xEA, CHR 0xB8, CHR 0x88]
      else [CHR 0xED, CHR 0x86, CHR 0xA0])"

text \<open>\<open>new Date(t).toLocaleDateString('ko-KR', { weekday: 'short' })\<close>.\<close>

definition toLocaleWeekday :: "int \<Rightarrow> int \<Rightarrow> string" where
  "toLocaleWeekday tz t = weekdayShort ((localDay tz t + 4) mod 7)"

section \<open>Admin console: revenue chart\<close>

text \<open>
  \<open>stats\<close> is an object with string keys; \<open>Object.entries\<close> lists them in insertion
  order, so it is an association list in which assignment to an existing key keeps the
  key's place.
\<close>

fun assign :: "(string \<times> int) list \<Rightarrow> string \<Rightarrow> int \<Rightarrow> (string \<times> int) list" where
  "assign [] k v = [(k, v)]"
| "assign ((k', v') # rest) k v =
     (if k' = k then (k, v) # rest else (k', v') # assign rest k v)"

text \<open>\<open>stats[date] || 0\<close>: a missing key and a stored 0 both give 0.\<close>

definition orZero :: "int option \<Rightarrow> int" where
  "orZero x = (case x of None \<Rightarrow> 0 | Some v \<Rightarrow> (if v = 0 then 0 else v))"

definition chartStep :: "int \<Rightarrow> (string \<times> int) list \<Rightarrow> 'a OrderData_scheme \<Rightarrow> (string \<times> int) list" where
  "chartStep tz stats ord =
     (let date = toLocaleWeekday tz (createdAt ord)
      in assign stats date (orZero (map_of stats date) + totalAmount ord))"

text \<open>Each entry \<open>{ name, value }\<close> of the result is the pair \<open>(name, value)\<close>.\<close>

definition chartData :: "int \<Rightarrow> 'a OrderData_scheme list \<Rightarrow> (string \<times> int) list" where
  "chartData tz orders = foldl (chartStep tz) [] orders"

section \<open>User-facing texts\<close>

text \<open>The message literals of the source, as UTF-8 bytes.\<close>

text \<open>The text after the item's name in the toast of \<open>addToCart\<close>.\<close>

definition cartAddedSuffix :: string where
  "cartAddedSuffix =
     [CHR 0x20, CHR 0xEC, CHR 0x9E, CHR 0xA5, CHR 0xEB, CHR 0xB0, CHR 0x94, CHR 0xEA,
      CHR 0xB5, CHR 0xAC, CHR 0xEB, CHR 0x8B, CHR 0x88, CHR 0xEC, CHR 0x97, CHR 0x90,
      CHR 0x20, CHR 0xEB, CHR 0x8B, CHR 0xB4, CHR 0xEA, CHR 0xB9, CHR 0x80]"

definition loginRequiredMsg :: string where
  "loginRequiredMsg =
     [CHR 0xEC, CHR 0xA3, CHR 0xBC, CHR 0xEB, CHR 0xAC, CHR 0xB8, CHR 0xED, CHR 0x95,
      CHR 0x98, CHR 0xEB, CHR 0xA0, CHR 0xA4, CHR 0xEB, CHR 0xA9, CHR 0xB4, CHR 0x20,
      CHR 0xEB, CHR 0xA1, CHR 0x9C, CHR 0xEA, CHR 0xB7, CHR 0xB8, CHR 0xEC, CHR 0x9D,
      CHR 0xB8, CHR 0xEC, CHR 0x9D, CHR 0xB4, CHR 0x20, CHR 0xED, CHR 0x95, CHR 0x84,
      CHR 0xEC, CHR 0x9A, CHR 0x94, CHR 0xED, CHR 0x95, CHR 0xA9, CHR 0xEB, CHR 0x8B,
      CHR 0x88, CHR 0xEB, CHR 0x8B, CHR 0xA4]"

definition orderDoneMsg :: string where
  "orderDoneMsg =
     [CHR 0xEC, CHR 0xA3, CHR 0xBC, CHR 0xEB, CHR 0xAC, CHR 0xB8, CHR 0xEC, CHR 0x9D,
      CHR 0xB4, CHR 0x20, CHR 0xEC, CHR 0x99, CHR 0x84, CHR 0xEB, CHR 0xA3, CHR 0x8C,
      CHR 0xEB, CHR 0x90, CHR 0x98, CHR 0xEC, CHR 0x97, CHR 0x88, CHR 0xEC, CHR 0x8A,
      CHR 0xB5, CHR 0xEB, CHR 0x8B, CHR 0x88, CHR 0xEB, CHR 0x8B, CHR 0xA4, CHR 0x21]"

definition orderFailedMsg :: string where
  "orderFailedMsg =
     [CHR 0xEC, CHR 0xA3, CHR 0xBC, CHR 0xEB, CHR 0xAC, CHR 0xB8, CHR 0x20, CHR 0xEC,
      CHR 0xB2, CHR 0x98, CHR 0xEB, CHR 0xA6, CHR 0xAC, CHR 0xEC, CHR 0x97, CHR 0x90,
      CHR 0x20, CHR 0xEC, CHR 0x8B, CHR 0xA4, CHR 0xED, CHR 0x8C, CHR 0xA8, CHR 0xED,
      CHR 0x96, CHR 0x88, CHR 0xEC, CHR 0x8A, CHR 0xB5, CHR 0xEB, CHR 0x8B, CHR 0x88,
      CHR 0xEB, CHR 0x8B, CHR 0xA4]"

definition menuAddedMsg :: string where
  "menuAddedMsg =
     [CHR 0xEB, CHR 0xA9, CHR 0x94, CHR 0xEB, CHR 0x89, CHR 0xB4, CHR 0xEA, CHR 0xB0,
      CHR 0x80, CHR 0x20, CHR 0xEC, CHR 0xB6, CHR 0x94, CHR 0xEA, CHR 0xB0, CHR 0x80,
      CHR 0xEB, CHR 0x90, CHR 0x98, CHR 0xEC, CHR 0x97, CHR 0x88, CHR 0xEC, CHR 0x8A,
      CHR 0xB5, CHR 0xEB, CHR 0x8B, CHR 0x88, CHR 0xEB, CHR 0x8B, CHR 0xA4]"

definition menuAddFailedMsg :: string where
  "menuAddFailedMsg =
     [CHR 0xEB, CHR 0xA9, CHR 0x94, CHR 0xEB, CHR 0x89, CHR 0xB4, CHR 0x20, CHR 0xEC,
      CHR 0xB6, CHR 0x94, CHR 0xEA, CHR 0xB0, CHR 0x80, CHR 0x20, CHR 0xEC, CHR 0x8B,
      CHR 0xA4, CHR 0xED, CHR 0x8C, CHR 0xA8]"

definition menuDeletedMsg :: string where
  "menuDeletedMsg =
     [CHR 0xEB, CHR 0xA9, CHR 0x94, CHR 0xEB, CHR 0x89, CHR 0xB4, CHR 0xEA, CHR 0xB0,
      CHR 0x80, CHR 0x20, CHR 0xEC, CHR 0x82, CHR 0xAD, CHR 0xEC, CHR 0xA0, CHR 0x9C,
      CHR 0xEB, CHR 0x90, CHR 0x98, CHR 0xEC, CHR 0x97, CHR 0x88, CHR 0xEC, CHR 0x8A,
      CHR 0xB5, CHR 0xEB, CHR 0x8B, CHR 0x88, CHR 0xEB, CHR 0x8B, CHR 0xA4]"

definition menuDeleteFailedMsg :: string where
  "menuDeleteFailedMsg =
     [CHR 0xEB, CHR 0xA9, CHR 0x94, CHR 0xEB, CHR 0x89, CHR 0xB4, CHR 0x20, CHR 0xEC,
      CHR 0x82, CHR 0xAD, CHR 0xEC, CHR 0xA0, CHR 0x9C, CHR 0x20, CHR 0xEC, CHR 0x8B,
      CHR 0xA4, CHR 0xED, CHR 0x8C, CHR 0xA8]"

text \<open>The fallback of \<open>user.email || ...\<close> in the order record.\<close>

definition unknownEmail :: string where
  "unknownEmail =
     [CHR 0xEC, CHR 0x95, CHR 0x8C, CHR 0x20, CHR 0xEC, CHR 0x88, CHR 0x98, CHR 0x20,
      CHR 0xEC, CHR 0x97, CHR 0x86, CHR 0xEC, CHR 0x9D, CHR 0x8C]"

definition loggedOutMsg :: string where
  "loggedOutMsg =
     [CHR 0xEB, CHR 0xA1, CHR 0x9C, CHR 0xEA, CHR 0xB7, CHR 0xB8, CHR 0xEC, CHR 0x95,
      CHR 0x84, CHR 0xEC, CHR 0x9B, CHR 0x83, CHR 0x20, CHR 0xEB, CHR 0x90, CHR 0x98,
      CHR 0xEC, CHR 0x97, CHR 0x88, CHR 0xEC, CHR 0x8A, CHR 0xB5, CHR 0xEB, CHR 0x8B,
      CHR 0x88, CHR 0xEB, CHR 0x8B, CHR 0xA4, CHR 0x2E]"

section \<open>Cart\<close>

text \<open>\<open>{ ...item, quantity: q }\<close>: the menu item's fields with a quantity beside them.\<close>

definition cartEntry :: "MenuItem \<Rightarrow> int \<Rightarrow> CartItem" where
  "cartEntry item q = MenuItem.extend item (CartItem.fields q)"

text \<open>The updater that \<open>addToCart\<close> passes to \<open>setCart\<close>.\<close>

definition addToCartUpdater :: "MenuItem \<Rightarrow> CartItem list \<Rightarrow> CartItem list" where
  "addToCartUpdater item prev =
     (case find (\<lambda>i. id' i = id' item) prev of
        Some exists \<Rightarrow>
          map (\<lambda>i. if id' i = id' item then i\<lparr>quantity := quantity i + 1\<rparr> else i) prev
      | None \<Rightarrow> prev @ [cartEntry item 1])"

text \<open>The updater of \<open>updateQuantity\<close>.\<close>

definition updateQuantityUpdater :: "string \<Rightarrow> int \<Rightarrow> CartItem list \<Rightarrow> CartItem list" where
  "updateQuantityUpdater ident delta prev =
     map (\<lambda>item. if id' item = ident
                  then item\<lparr>quantity := max 1 (quantity item + delta)\<rparr>
                  else item) prev"

text \<open>The updater of \<open>removeFromCart\<close>.\<close>

definition removeFromCartUpdater :: "string \<Rightarrow> CartItem list \<Rightarrow> CartItem list" where
  "removeFromCartUpdater ident prev = filter (\<lambda>i. id' i \<noteq> ident) prev"

text \<open>\<open>cart.reduce((sum, item) => sum + (item.price * item.quantity), 0)\<close>.\<close>

definition cartTotal :: "CartItem list \<Rightarrow> int" where
  "cartTotal cart = foldl (\<lambda>sum item. sum + price item * quantity item) 0 cart"

section \<open>Application state and handlers\<close>

datatype page = home | menu | admin

text \<open>The state of \<open>App\<close> that the handlers below read or write.\<close>

record AppState =
  user :: "UserProfile option"
  activePage :: page
  cart :: "CartItem list"
  isCartOpen :: bool
  isCheckoutOpen :: bool
  toast :: "Toast option"

text \<open>
  What a handler asks of the outside world: a write to a collection of the remote
  store, a sign-in or a sign-out. A handler returns the new state and the calls it issued,
  in order.
\<close>

datatype doc = OrderDoc OrderData | MenuDoc NewMenuItem

datatype effect =
    AddDoc string doc
  | DeleteDoc string string
  | HandleLogin
  | SignOut

text \<open>How an awaited store call settles: the promise resolves, or it rejects (or throws).\<close>

datatype reply = Resolved | Rejected

definition addToCart :: "MenuItem \<Rightarrow> AppState \<Rightarrow> AppState" where
  "addToCart item s =
     s\<lparr>cart := addToCartUpdater item (cart s),
       toast := Some \<lparr>msg = name item @ cartAddedSuffix, type = success\<rparr>\<rparr>"

definition updateQuantity :: "string \<Rightarrow> int \<Rightarrow> AppState \<Rightarrow> AppState" where
  "updateQuantity ident delta s = s\<lparr>cart := updateQuantityUpdater ident delta (cart s)\<rparr>"

definition removeFromCart :: "string \<Rightarrow> AppState \<Rightarrow> AppState" where
  "removeFromCart ident s = s\<lparr>cart := removeFromCartUpdater ident (cart s)\<rparr>"

definition handleLogout :: "AppState \<Rightarrow> AppState \<times> effect list" where
  "handleLogout s =
     (s\<lparr>cart := [], activePage := home,
        toast := Some \<lparr>msg = loggedOutMsg, type = success\<rparr>\<rparr>,
      [SignOut])"

text \<open>\<open>user.email || ...\<close>: \<open>null\<close> and the empty string both take the fallback.\<close>

definition emailOrUnknown :: "string option \<Rightarrow> string" where
  "emailOrUnknown e = (case e of None \<Rightarrow> unknownEmail
                       | Some a \<Rightarrow> (if truthyStr a then a else unknownEmail))"

text \<open>
  \<open>handleCheckout\<close>, with \<open>now\<close> the value of \<open>Date.now()\<close> and \<open>r\<close> the way the awaited
  \<open>addDoc\<close> settles. The handler reads \<open>user\<close> and \<open>cart\<close> as they are when it is called.
\<close>

definition handleCheckout :: "CheckoutDetails \<Rightarrow> int \<Rightarrow> reply \<Rightarrow> AppState \<Rightarrow> AppState \<times> effect list" where
  "handleCheckout details now r s =
     (case user s of
        None \<Rightarrow>
          (s\<lparr>toast := Some \<lparr>msg = loginRequiredMsg, type = error\<rparr>\<rparr>, [HandleLogin])
      | Some u \<Rightarrow>
          (let totalAmount = cartTotal (cart s);
               orderData = \<lparr> address = address details, contact = contact details,
                             deliveryDate = deliveryDate details,
                             deliveryTime = deliveryTime details,
                             userId = uid u, userEmail = emailOrUnknown (email u),
                             items = cart s, totalAmount = totalAmount,
                             status = pending, createdAt = now \<rparr>
           in case r of
                Resolved \<Rightarrow>
                  (s\<lparr>cart := [], isCheckoutOpen := False, isCartOpen := False,
                     toast := Some \<lparr>msg = orderDoneMsg, type = success\<rparr>\<rparr>,
                   [AddDoc ''orders'' (OrderDoc orderData)])
              | Rejected \<Rightarrow>
                  (s\<lparr>toast := Some \<lparr>msg = orderFailedMsg, type = error\<rparr>\<rparr>,
                   [AddDoc ''orders'' (OrderDoc orderData)])))"

definition addMenu :: "reply \<Rightarrow> NewMenuItem \<Rightarrow> AppState \<Rightarrow> AppState \<times> effect list" where
  "addMenu r item s =
     (case r of
        Resolved \<Rightarrow>
          (s\<lparr>toast := Some \<lparr>msg = menuAddedMsg, type = success\<rparr>\<rparr>,
           [AddDoc ''menus'' (MenuDoc item)])
      | Rejected \<Rightarrow>
          (s\<lparr>toast := Some \<lparr>msg = menuAddFailedMsg, type = error\<rparr>\<rparr>,
           [AddDoc ''menus'' (MenuDoc item)]))"

text \<open>\<open>deleteMenu\<close>, with \<open>confirmed\<close> the answer of \<open>window.confirm\<close>.\<close>

definition deleteMenu :: "bool \<Rightarrow> reply \<Rightarrow> string \<Rightarrow> AppState \<Rightarrow> AppState \<times> effect list" where
  "deleteMenu confirmed r ident s =
     (if \<not> confirmed then (s, [])
      else case r of
             Resolved \<Rightarrow>
               (s\<lparr>toast := Some \<lparr>msg = menuDeletedMsg, type = success\<rparr>\<rparr>,
                [DeleteDoc ''menus'' ident])
           | Rejected \<Rightarrow>
               (s\<lparr>toast := Some \<lparr>msg = menuDeleteFailedMsg, type = error\<rparr>\<rparr>,
                [DeleteDoc ''menus'' ident]))"

section \<open>Admin console: the add-menu form\<close>

text \<open>
  \<open>Partial<MenuItem>\<close> as the form holds it: every field may be absent, and the number
  fields hold what \<open>parseFloat\<close> returned, which may be \<open>NaN\<close>.
\<close>

record PartialMenuItem =
  nm_name :: "string option"
  nm_description :: "string option"
  nm_price :: "jsnumber option"
  nm_category :: "category option"
  nm_available :: "bool option"
  nm_imageUrl :: "string option"
  nm_calories :: "jsnumber option"

record AdminState =
  isAddModalOpen :: bool
  newMenu :: PartialMenuItem

text \<open>The value the form starts from and is reset to.\<close>

definition initialNewMenu :: PartialMenuItem where
  "initialNewMenu =
     \<lparr> nm_name = Some [], nm_description = Some [], nm_price = Some (Num 0),
       nm_category = Some regular, nm_available = Some True,
       nm_imageUrl = None, nm_calories = None \<rparr>"

text \<open>Truthiness of an optional string and of an optional number.\<close>

definition truthyStrOpt :: "string option \<Rightarrow> bool" where
  "truthyStrOpt x = (case x of None \<Rightarrow> False | Some s \<Rightarrow> truthyStr s)"

definition truthyNum :: "jsnumber option \<Rightarrow> bool" where
  "truthyNum x = (case x of None \<Rightarrow> False | Some NaN \<Rightarrow> False | Some (Num n) \<Rightarrow> n \<noteq> 0)"

text \<open>\<open>x || d\<close> on an optional string.\<close>

definition strOr :: "string option \<Rightarrow> string \<Rightarrow> string" where
  "strOr x d = (case x of None \<Rightarrow> d | Some s \<Rightarrow> (if truthyStr s then s else d))"

text \<open>\<open>Number(x)\<close> for a number that passed the truthiness test.\<close>

definition toNumber :: "jsnumber option \<Rightarrow> int" where
  "toNumber x = (case x of Some (Num n) \<Rightarrow> n | _ \<Rightarrow> 0)"

text \<open>The placeholder image; \<open>rnd\<close> is \<open>Math.random()\<close> as the template string prints it.\<close>

definition placeholderImage :: "string \<Rightarrow> string" where
  "placeholderImage rnd = ''https://picsum.photos/400/300?random='' @ rnd"

text \<open>
  \<open>handleAddSubmit\<close> of the admin dashboard, with \<open>onAddMenu\<close> bound to \<open>addMenu\<close> as
  \<open>App\<close> binds it. The result is the dashboard's state, the application's state and the
  store calls issued. \<open>newMenu.name!\<close> is read only under the test that the name is
  present and non-empty.
\<close>

definition handleAddSubmit ::
  "string \<Rightarrow> reply \<Rightarrow> AdminState \<Rightarrow> AppState \<Rightarrow> AdminState \<times> AppState \<times> effect list" where
  "handleAddSubmit rnd r a s =
     (if truthyStrOpt (nm_name (newMenu a)) \<and> truthyNum (nm_price (newMenu a)) then
        (let item = \<lparr> name = the (nm_name (newMenu a)),
                       description = strOr (nm_description (newMenu a)) [],
                       price = toNumber (nm_price (newMenu a)),
                       imageUrl = strOr (nm_imageUrl (newMenu a)) (placeholderImage rnd),
                       category = (case nm_category (newMenu a) of
                                     Some c \<Rightarrow> c | None \<Rightarrow> regular),
                       calories = nm_calories (newMenu a),
                       available = (case nm_available (newMenu a) of
                                      Some v \<Rightarrow> v | None \<Rightarrow> True) \<rparr>;
             (s', effs) = addMenu r item s
         in (a\<lparr>isAddModalOpen := False, newMenu := initialNewMenu\<rparr>, s', effs))
      else (a, s, []))"

section \<open>The vocabulary of the properties\<close>

text \<open>
  The cart operations as one datatype, so that a run of the cart is a list of operations
  folded over the empty cart. \<open>Clear\<close> is \<open>setCart([])\<close>, which the checkout and the
  logout perform.
\<close>

datatype cart_op = Add MenuItem | SetQuantity string int | Remove string | Clear

fun applyCartOp :: "CartItem list \<Rightarrow> cart_op \<Rightarrow> CartItem list" where
  "applyCartOp c (Add item) = addToCartUpdater item c"
| "applyCartOp c (SetQuantity ident delta) = updateQuantityUpdater ident delta c"
| "applyCartOp c (Remove ident) = removeFromCartUpdater ident c"
| "applyCartOp c Clear = []"

text \<open>At most one entry per menu item identifier, and no quantity below 1.\<close>

definition cartInvariant :: "CartItem list \<Rightarrow> bool" where
  "cartInvariant c = (distinct (map id' c) \<and> (\<forall>i \<in> set c. 1 \<le> quantity i))"

text \<open>The form holds a non-empty name and a price that is a number other than 0.\<close>

definition validNewMenu :: "PartialMenuItem \<Rightarrow> bool" where
  "validNewMenu m =
     ((\<exists>n. nm_name m = Some n \<and> n \<noteq> []) \<and> (\<exists>p. nm_price m = Some (Num p) \<and> p \<noteq> 0))"

section \<open>Sample data\<close>

definition bulgogi :: MenuItem where
  "bulgogi =
     \<lparr> name = ''Bulgogi Box'', description = ''Grilled beef and rice'', price = 8000,
       imageUrl = ''https://example.com/bulgogi.jpg'', category = regular,
       calories = Some (Num 650), available = True, id' = ''m1'' \<rparr>"

definition salmon :: MenuItem where
  "salmon =
     \<lparr> name = ''Salmon Box'', description = ''Grilled salmon'', price = 12000,
       imageUrl = ''https://example.com/salmon.jpg'', category = premium,
       calories = None, available = True, id' = ''m2'' \<rparr>"

definition sampleCart :: "CartItem list" where
  "sampleCart = [cartEntry bulgogi 2, cartEntry salmon 1]"

definition sampleUser :: UserProfile where
  "sampleUser =
     \<lparr> uid = ''u1'', email = Some ''kim@example.com'', displayName = Some ''Kim'',
       photoURL = None, isAdmin = False \<rparr>"

definition sampleState :: AppState where
  "sampleState =
     \<lparr> user = Some sampleUser, activePage = menu, cart = sampleCart,
       isCartOpen = True, isCheckoutOpen = True, toast = None \<rparr>"

definition sampleDetails :: CheckoutDetails where
  "sampleDetails =
     \<lparr> address = ''Seoul'', contact = ''010-1111-2222'', deliveryDate = ''2024-05-01'',
       deliveryTime = lunch \<rparr>"

text \<open>The checkout form as \<open>useState\<close> initialises it.\<close>

definition initialCheckoutForm :: CheckoutDetails where
  "initialCheckoutForm =
     \<lparr> address = [], contact = [], deliveryDate = [], deliveryTime = lunch \<rparr>"

definition sampleOrder :: "int \<Rightarrow> int \<Rightarrow> OrderData" where
  "sampleOrder t amt =
     \<lparr> address = ''Seoul'', contact = ''010-1111-2222'', deliveryDate = ''2024-05-01'',
       deliveryTime = lunch, userId = ''u1'', userEmail = ''kim@example.com'', items = [],
       totalAmount = amt, status = pending, createdAt = t \<rparr>"

definition filledNewMenu :: PartialMenuItem where
  "filledNewMenu =
     \<lparr> nm_name = Some ''Tofu Box'', nm_description = Some ''Braised tofu'',
       nm_price = Some (Num 7000), nm_category = Some diet, nm_available = Some True,
       nm_imageUrl = None, nm_calories = Some NaN \<rparr>"

section \<open>Identity: the administrator flag\<close>

text \<open>
  Claim C4. For every authentication state, the derived administrator flag is true exactly
  when somebody is signed in and the identity's email equals the configured
  administrator address, character for character. A signed-in identity with another
  email or with no email, and the absence of any identity, give false.
\<close>

theorem isAdmin_iff:
  "userIsAdmin (authListener fu) \<longleftrightarrow> (\<exists>u. fu = Some u \<and> fb_email u = Some ADMIN_EMAIL)"
  by (cases fu) (simp_all add: userIsAdmin_def authListener_def)

text \<open>The comparison is case-sensitive, and a null email is not the administrator's.\<close>

lemma isAdmin_examples:
  "userIsAdmin (authListener (Some \<lparr>fb_uid = ''u0'', fb_email = Some ''acehwan69@gmail.com'',
       fb_displayName = None, fb_photoURL = None\<rparr>))"
  "\<not> userIsAdmin (authListener (Some \<lparr>fb_uid = ''u1'', fb_email = Some ''Acehwan69@gmail.com'',
       fb_displayName = None, fb_photoURL = None\<rparr>))"
  "\<not> userIsAdmin (authListener (Some \<lparr>fb_uid = ''u2'', fb_email = None,
       fb_displayName = None, fb_photoURL = None\<rparr>))"
  "\<not> userIsAdmin (authListener None)"
  by (simp_all add: userIsAdmin_def authListener_def ADMIN_EMAIL_def)

section \<open>Checkout form: the submit button\<close>

text \<open>
  Claim C8. For every state of the checkout form, the submit action is disabled exactly
  when at least one of address, contact and delivery date is the empty string.
\<close>

theorem submitDisabled_iff:
  "submitDisabled f \<longleftrightarrow> (address f = [] \<or> contact f = [] \<or> deliveryDate f = [])"
  by (simp add: submitDisabled_def truthyStr_def)

text \<open>
  The example of the specification: an empty address with contact and date filled in
  disables the button; with all three filled in it is enabled.
\<close>

theorem submitDisabled_iff_witness:
  "submitDisabled \<lparr>address = [], contact = ''010-1111-2222'',
                    deliveryDate = ''2024-05-01'', deliveryTime = lunch\<rparr>
   \<and> \<not> submitDisabled sampleDetails"
  using submitDisabled_iff [of "\<lparr>address = [], contact = ''010-1111-2222'',
                                  deliveryDate = ''2024-05-01'', deliveryTime = lunch\<rparr>"]
    submitDisabled_iff [of sampleDetails]
  by (simp add: sampleDetails_def)

section \<open>Checkout form: the default delivery date\<close>

lemma isoDate_examples:
  "isoDate 1714518000000 = ''2024-04-30''"
  "isoDate 1714550400000 = ''2024-05-01''"
  "isoDate 1714604400000 = ''2024-05-01''"
  "isoDate 1714636800000 = ''2024-05-02''"
  by code_simp+

text \<open>
  What the effect stores is the UTC calendar date of the instant one day after \<open>now\<close>,
  whatever the local zone; a closed modal leaves the form alone.
\<close>

lemma checkoutOpenEffect_date:
  "deliveryDate (checkoutOpenEffect tz now True f) = isoDate (now + msPerDay)"
  "checkoutOpenEffect tz now False f = f"
  by (simp_all add: checkoutOpenEffect_def setDatePlusOne_def Let_def)

text \<open>
  Claim C2 says that on opening the modal the delivery date is tomorrow's date in the
  local time zone and the minimum selectable date is today's. The code computes
  tomorrow in local time but prints it, and the minimum, with \<open>toISOString\<close>, which is
  UTC. In Seoul (UTC+9) at 08:00 on 2024-05-01, which is 2024-04-30T23:00:00Z, the
  default date is 2024-05-01, the local today and not the local tomorrow 2024-05-02,
  and the minimum is 2024-04-30, the local yesterday.
\<close>

theorem checkout_default_date_utc_shift:
  "deliveryDate (checkoutOpenEffect 32400000 1714518000000 True initialCheckoutForm)
     = ''2024-05-01''
   \<and> localDate 32400000 1714518000000 = ''2024-05-01''
   \<and> localDate 32400000 (1714518000000 + msPerDay) = ''2024-05-02''
   \<and> minDeliveryDate 1714518000000 = ''2024-04-30''"
  by (simp add: checkoutOpenEffect_def setDatePlusOne_def localDate_def minDeliveryDate_def
      Let_def isoDate_examples msPerDay_def)

section \<open>Checkout submission\<close>

text \<open>
  Claim C3. For every checkout submission with an authenticated identity: if persisting
  the order succeeds, the cart is empty, the checkout modal and the cart drawer are
  closed and a success notification is shown; if persisting fails, the cart is exactly
  what it was, the checkout modal is as open as it was, and an error notification is
  shown.
\<close>

theorem handleCheckout_outcome:
  assumes "user s \<noteq> None"
  shows "(let s' = fst (handleCheckout details now Resolved s)
          in cart s' = [] \<and> \<not> isCheckoutOpen s' \<and> \<not> isCartOpen s'
             \<and> toast s' = Some \<lparr>msg = orderDoneMsg, type = success\<rparr>)
       \<and> (let s' = fst (handleCheckout details now Rejected s)
          in cart s' = cart s \<and> isCheckoutOpen s' = isCheckoutOpen s
             \<and> toast s' = Some \<lparr>msg = orderFailedMsg, type = error\<rparr>)"
  using assms by (auto simp: handleCheckout_def Let_def)

theorem handleCheckout_outcome_witness:
  "user sampleState \<noteq> None
   \<and> isCheckoutOpen sampleState
   \<and> cart (fst (handleCheckout sampleDetails 1714518000000 Resolved sampleState)) = []
   \<and> \<not> isCheckoutOpen (fst (handleCheckout sampleDetails 1714518000000 Resolved sampleState))
   \<and> \<not> isCartOpen (fst (handleCheckout sampleDetails 1714518000000 Resolved sampleState))
   \<and> toast (fst (handleCheckout sampleDetails 1714518000000 Resolved sampleState))
       = Some \<lparr>msg = orderDoneMsg, type = success\<rparr>
   \<and> cart (fst (handleCheckout sampleDetails 1714518000000 Rejected sampleState)) = sampleCart
   \<and> isCheckoutOpen (fst (handleCheckout sampleDetails 1714518000000 Rejected sampleState))
   \<and> toast (fst (handleCheckout sampleDetails 1714518000000 Rejected sampleState))
       = Some \<lparr>msg = orderFailedMsg, type = error\<rparr>"
  using handleCheckout_outcome [of sampleState sampleDetails 1714518000000]
  by (simp add: sampleState_def Let_def)

section \<open>Cart total\<close>

lemma cartTotal_foldl:
  "foldl (\<lambda>sum item. sum + price item * quantity item) a c
     = a + (\<Sum>i\<leftarrow>c. price i * quantity i)"
  by (induction c arbitrary: a) simp_all

text \<open>
  Claim C7. For every cart, the cart total is the sum over the entries of price times
  quantity, and the order record that a checkout submission by a signed-in user hands
  to the store carries the cart as its items and that same sum as its total amount.
\<close>

theorem cartTotal_persisted:
  "cartTotal c = (\<Sum>i\<leftarrow>c. price i * quantity i)
   \<and> (user s \<noteq> None \<longrightarrow>
        (\<exists>od. snd (handleCheckout details now r s) = [AddDoc ''orders'' (OrderDoc od)]
              \<and> items od = cart s
              \<and> totalAmount od = (\<Sum>i\<leftarrow>cart s. price i * quantity i)))"
  by (cases r) (auto simp: cartTotal_def cartTotal_foldl handleCheckout_def Let_def)

text \<open>
  The example of the specification: two boxes at 8000 and one at 12000 total 28000, and
  that is the amount in the order record.
\<close>

theorem cartTotal_persisted_witness:
  "user sampleState \<noteq> None
   \<and> cartTotal sampleCart = 28000
   \<and> (\<exists>od. snd (handleCheckout sampleDetails 1714518000000 Resolved sampleState)
               = [AddDoc ''orders'' (OrderDoc od)]
             \<and> items od = sampleCart \<and> totalAmount od = 28000)"
  using cartTotal_persisted [of sampleCart sampleState sampleDetails 1714518000000 Resolved]
  by (simp add: sampleState_def sampleCart_def cartEntry_def bulgogi_def salmon_def
      MenuItem.defs CartItem.defs)

section \<open>Cart operations\<close>

lemma cartEntry_simps [simp]:
  "id' (cartEntry item q) = id' item"
  "quantity (cartEntry item q) = q"
  "price (cartEntry item q) = price item"
  "name (cartEntry item q) = name item"
  "(cartEntry item q)\<lparr>quantity := q'\<rparr> = cartEntry item q'"
  by (simp_all add: cartEntry_def MenuItem.defs CartItem.defs)

lemma addToCartUpdater_absent:
  "id' item \<notin> id' ` set c \<Longrightarrow> addToCartUpdater item c = c @ [cartEntry item 1]"
proof -
  assume "id' item \<notin> id' ` set c"
  then have "find (\<lambda>i. id' i = id' item) c = None"
    unfolding find_None_iff by (metis imageI)
  then show ?thesis
    by (simp add: addToCartUpdater_def)
qed

lemma addToCartUpdater_present:
  "id' item \<in> id' ` set c \<Longrightarrow>
   addToCartUpdater item c =
     map (\<lambda>i. if id' i = id' item then i\<lparr>quantity := quantity i + 1\<rparr> else i) c"
  by (auto simp: addToCartUpdater_def find_None_iff split: option.splits)

lemma map_id_unchanged:
  "k \<notin> id' ` set c \<Longrightarrow> map (\<lambda>i. if id' i = k then f i else i) c = c"
  by (induction c) auto

lemma adds_from_entry:
  "k \<notin> id' ` set c \<Longrightarrow> id' it0 = k \<Longrightarrow> \<forall>it \<in> set its. id' it = k \<Longrightarrow>
   foldl (\<lambda>c it. addToCartUpdater it c) (c @ [cartEntry it0 q]) its
     = c @ [cartEntry it0 (q + int (length its))]"
proof (induction its arbitrary: q)
  case Nil
  then show ?case by simp
next
  case (Cons it its)
  have "addToCartUpdater it (c @ [cartEntry it0 q]) = c @ [cartEntry it0 (q + 1)]"
    using Cons.prems by (simp add: addToCartUpdater_present map_id_unchanged)
  then show ?case
    using Cons.IH [of "q + 1"] Cons.prems by (simp add: add.assoc)
qed

lemma cart_foldl_addToCart:
  "cart (foldl (\<lambda>s it. addToCart it s) s its)
     = foldl (\<lambda>c it. addToCartUpdater it c) (cart s) its"
  by (induction its arbitrary: s) (simp_all add: addToCart_def)

text \<open>
  Claim C6. Adding \<open>n \<ge> 1\<close> times items that all carry the identifier \<open>k\<close>, starting
  from a cart without \<open>k\<close>, leaves the earlier entries as they were and exactly one
  entry for \<open>k\<close>, the first item added with quantity \<open>n\<close>. An add of an identifier that
  is present adds 1 to the quantity of its entry and changes nothing else, and every add
  sets a success notification that begins with the item's name.
\<close>

theorem addToCart_repeated:
  assumes "its \<noteq> []" and "\<forall>it \<in> set its. id' it = k" and "k \<notin> id' ` set (cart s)"
  shows "cart (foldl (\<lambda>s it. addToCart it s) s its)
           = cart s @ [cartEntry (hd its) (int (length its))]
       \<and> filter (\<lambda>i. id' i = k) (cart (foldl (\<lambda>s it. addToCart it s) s its))
           = [cartEntry (hd its) (int (length its))]
       \<and> (\<forall>item s0. id' item \<in> id' ` set (cart s0) \<longrightarrow>
            cart (addToCart item s0)
              = map (\<lambda>i. if id' i = id' item then i\<lparr>quantity := quantity i + 1\<rparr> else i)
                  (cart s0))
       \<and> (\<forall>item s0. toast (addToCart item s0)
              = Some \<lparr>msg = name item @ cartAddedSuffix, type = success\<rparr>)"
proof -
  obtain it0 rest where its: "its = it0 # rest"
    using assms(1) by (cases its) auto
  have k0: "id' it0 = k" and krest: "\<forall>it \<in> set rest. id' it = k"
    using assms(2) its by auto
  have first: "addToCartUpdater it0 (cart s) = cart s @ [cartEntry it0 1]"
    using assms(3) k0 by (simp add: addToCartUpdater_absent)
  have c: "cart (foldl (\<lambda>s it. addToCart it s) s its)
             = cart s @ [cartEntry it0 (1 + int (length rest))]"
  proof -
    have "cart (foldl (\<lambda>s it. addToCart it s) s its)
            = foldl (\<lambda>c it. addToCartUpdater it c) (cart s) its"
      by (rule cart_foldl_addToCart)
    also have "\<dots> = foldl (\<lambda>c it. addToCartUpdater it c) (cart s @ [cartEntry it0 1]) rest"
      by (simp add: its first)
    also have "\<dots> = cart s @ [cartEntry it0 (1 + int (length rest))]"
      by (rule adds_from_entry [OF assms(3) k0 krest])
    finally show ?thesis .
  qed
  have f: "filter (\<lambda>i. id' i = k) (cart s) = []"
    using assms(3) by (auto simp: filter_empty_conv)
  have c': "cart (foldl (\<lambda>s it. addToCart it s) s its)
              = cart s @ [cartEntry (hd its) (int (length its))]"
    using c by (simp add: its)
  have f': "filter (\<lambda>i. id' i = k) (cart s @ [cartEntry (hd its) (int (length its))])
              = [cartEntry (hd its) (int (length its))]"
    using f k0 by (simp add: its)
  have p: "\<forall>item s0. id' item \<in> id' ` set (cart s0) \<longrightarrow>
            cart (addToCart item s0)
              = map (\<lambda>i. if id' i = id' item then i\<lparr>quantity := quantity i + 1\<rparr> else i)
                  (cart s0)"
    by (simp add: addToCart_def addToCartUpdater_present)
  have t: "\<forall>item s0. toast (addToCart item s0)
              = Some \<lparr>msg = name item @ cartAddedSuffix, type = success\<rparr>"
    by (simp add: addToCart_def)
  from c' f' p t show ?thesis
    by (simp only: simp_thms)
qed

lemma sample_ids:
  "id' bulgogi = ''m1''" "id' salmon = ''m2''"
  by (simp_all add: bulgogi_def salmon_def)

text \<open>Three adds of the same box to a cart that holds another one.\<close>

theorem addToCart_repeated_witness:
  "[bulgogi, bulgogi, bulgogi] \<noteq> []
   \<and> ''m1'' \<notin> id' ` set (cart (sampleState\<lparr>cart := [cartEntry salmon 1]\<rparr>))
   \<and> cart (foldl (\<lambda>s it. addToCart it s) (sampleState\<lparr>cart := [cartEntry salmon 1]\<rparr>)
              [bulgogi, bulgogi, bulgogi])
       = [cartEntry salmon 1, cartEntry bulgogi 3]
   \<and> filter (\<lambda>i. id' i = ''m1'')
        (cart (foldl (\<lambda>s it. addToCart it s) (sampleState\<lparr>cart := [cartEntry salmon 1]\<rparr>)
                 [bulgogi, bulgogi, bulgogi]))
       = [cartEntry bulgogi 3]"
proof -
  have h1: "[bulgogi, bulgogi, bulgogi] \<noteq> []"
    by simp
  have h2: "\<forall>it \<in> set [bulgogi, bulgogi, bulgogi]. id' it = ''m1''"
    by (simp add: sample_ids)
  have h3: "''m1'' \<notin> id' ` set (cart (sampleState\<lparr>cart := [cartEntry salmon 1]\<rparr>))"
    by (simp add: sample_ids)
  show ?thesis
    using h3 addToCart_repeated [OF h1 h2 h3] by (simp add: sample_ids)
qed

lemma map_id'_quantity_update:
  "map (id' \<circ> (\<lambda>i. if P i then i\<lparr>quantity := f i\<rparr> else i)) c = map id' c"
  by (induction c) auto

lemma inv_add: "cartInvariant c \<Longrightarrow> cartInvariant (addToCartUpdater item c)"
proof (cases "id' item \<in> id' ` set c")
  case True
  assume inv: "cartInvariant c"
  show ?thesis
    using inv True
    by (auto simp: cartInvariant_def addToCartUpdater_present map_id'_quantity_update)
next
  case False
  assume "cartInvariant c"
  then show ?thesis
    using False by (auto simp: cartInvariant_def addToCartUpdater_absent)
qed

lemma inv_update: "cartInvariant c \<Longrightarrow> cartInvariant (updateQuantityUpdater k d c)"
  by (auto simp: cartInvariant_def updateQuantityUpdater_def map_id'_quantity_update)

lemma inv_remove: "cartInvariant c \<Longrightarrow> cartInvariant (removeFromCartUpdater k c)"
  by (auto simp: cartInvariant_def removeFromCartUpdater_def distinct_map_filter)

lemma inv_op: "cartInvariant c \<Longrightarrow> cartInvariant (applyCartOp c x)"
  by (cases x) (simp_all add: inv_add inv_update inv_remove, simp add: cartInvariant_def)

lemma inv_ops: "cartInvariant c \<Longrightarrow> cartInvariant (foldl applyCartOp c ops)"
  by (induction ops arbitrary: c) (simp_all add: inv_op)

lemma updateQuantity_floor:
  assumes "i \<in> set (updateQuantityUpdater k d c)" and "id' i = k"
  shows "1 \<le> quantity i"
proof -
  have "i \<in> (\<lambda>item. if id' item = k then item\<lparr>quantity := max 1 (quantity item + d)\<rparr>
                      else item) ` set c"
    using assms(1) unfolding updateQuantityUpdater_def by (simp only: set_map)
  then obtain j
    where i: "i = (if id' j = k then j\<lparr>quantity := max 1 (quantity j + d)\<rparr> else j)"
    by (rule imageE)
  show ?thesis
  proof (cases "id' j = k")
    case True
    then have "quantity i = max 1 (quantity j + d)"
      using i by simp
    then show ?thesis by simp
  next
    case False
    then have "i = j" using i by simp
    then show ?thesis using False assms(2) by simp
  qed
qed

lemma updateQuantity_absent:
  "k \<notin> id' ` set c \<Longrightarrow> updateQuantityUpdater k d c = c"
  unfolding updateQuantityUpdater_def by (rule map_id_unchanged)

lemma removeFromCart_absent:
  "k \<notin> id' ` set c \<Longrightarrow> removeFromCartUpdater k c = c"
  by (induction c) (auto simp: removeFromCartUpdater_def)

text \<open>
  Claim C5. Every cart reached from the empty cart by any sequence of add, setQuantity,
  remove and clear holds at most one entry per menu item identifier, each with quantity
  at least 1. Whatever the cart and the delta, the entry that setQuantity touches ends
  with quantity at least 1; and setQuantity and remove on an identifier that is absent
  return the cart as it was.
\<close>

theorem cart_invariant_reachable:
  "cartInvariant (foldl applyCartOp [] ops)
   \<and> (\<forall>i \<in> set (updateQuantityUpdater k d c). id' i = k \<longrightarrow> 1 \<le> quantity i)
   \<and> (k \<notin> id' ` set c \<longrightarrow>
        updateQuantityUpdater k d c = c \<and> removeFromCartUpdater k c = c)"
proof (intro conjI ballI impI)
  show "cartInvariant (foldl applyCartOp [] ops)"
    by (rule inv_ops) (simp add: cartInvariant_def)
next
  fix i
  assume "i \<in> set (updateQuantityUpdater k d c)" and "id' i = k"
  then show "1 \<le> quantity i"
    by (rule updateQuantity_floor)
next
  assume "k \<notin> id' ` set c"
  then show "updateQuantityUpdater k d c = c"
    by (rule updateQuantity_absent)
next
  assume "k \<notin> id' ` set c"
  then show "removeFromCartUpdater k c = c"
    by (rule removeFromCart_absent)
qed

lemma sample_run:
  "foldl applyCartOp []
     [Add bulgogi, Add bulgogi, SetQuantity ''m1'' (- 5), Add salmon, Remove ''m1'',
      Add salmon, SetQuantity ''m2'' 3]
   = [cartEntry salmon 5]"
  by (simp add: addToCartUpdater_def updateQuantityUpdater_def removeFromCartUpdater_def
      sample_ids)

lemma sample_decrement:
  "updateQuantityUpdater ''m1'' (- 5) sampleCart = [cartEntry bulgogi 1, cartEntry salmon 1]"
  by (simp add: updateQuantityUpdater_def sampleCart_def sample_ids)

text \<open>
  A run through every operation, a decrement by 5 of a quantity of 2, and the two
  operations on an identifier the cart does not hold.
\<close>

theorem cart_invariant_reachable_witness:
  "cartInvariant [cartEntry salmon 5]
   \<and> cartEntry bulgogi 1 \<in> set (updateQuantityUpdater ''m1'' (- 5) sampleCart)
   \<and> 1 \<le> quantity (cartEntry bulgogi 1)
   \<and> ''m9'' \<notin> id' ` set sampleCart
   \<and> updateQuantityUpdater ''m9'' (- 5) sampleCart = sampleCart
   \<and> removeFromCartUpdater ''m9'' sampleCart = sampleCart"
proof -
  let ?ops = "[Add bulgogi, Add bulgogi, SetQuantity ''m1'' (- 5), Add salmon, Remove ''m1'',
               Add salmon, SetQuantity ''m2'' 3]"
  have absent: "''m9'' \<notin> id' ` set sampleCart"
    by (simp add: sampleCart_def sample_ids)
  have touched: "cartEntry bulgogi 1 \<in> set (updateQuantityUpdater ''m1'' (- 5) sampleCart)"
    by (simp add: sample_decrement)
  have inv: "cartInvariant [cartEntry salmon 5]"
    using cart_invariant_reachable [of ?ops "''m9''" "- 5" sampleCart]
    unfolding sample_run by (rule conjunct1)
  have floor: "1 \<le> quantity (cartEntry bulgogi 1)"
    using cart_invariant_reachable [of ?ops "''m1''" "- 5" sampleCart] touched
    by (simp add: sample_ids)
  have same: "updateQuantityUpdater ''m9'' (- 5) sampleCart = sampleCart
              \<and> removeFromCartUpdater ''m9'' sampleCart = sampleCart"
    using cart_invariant_reachable [of ?ops "''m9''" "- 5" sampleCart] absent
    by (simp only: simp_thms)
  show ?thesis
    using absent touched inv floor same by (simp only: simp_thms)
qed

section \<open>Admin console: deleting a menu item\<close>

text \<open>
  Claim C9. For every request to delete a menu item: when the user does not confirm the
  prompt, no call goes to the store and the state, its notification included, is what it
  was; when the user confirms, exactly one delete call goes out, on the menu collection
  and for that item's identifier, however the store then answers.
\<close>

theorem deleteMenu_confirmation:
  "deleteMenu False r ident s = (s, [])
   \<and> snd (deleteMenu True r ident s) = [DeleteDoc ''menus'' ident]"
  by (cases r) (simp_all add: deleteMenu_def)

section \<open>Admin console: submitting the add-menu form\<close>

lemma truthyStrOpt_iff: "truthyStrOpt x \<longleftrightarrow> (\<exists>n. x = Some n \<and> n \<noteq> [])"
  by (cases x) (simp_all add: truthyStrOpt_def truthyStr_def)

lemma truthyNum_iff: "truthyNum x \<longleftrightarrow> (\<exists>p. x = Some (Num p) \<and> p \<noteq> 0)"
proof (cases x)
  case None
  then show ?thesis by (simp add: truthyNum_def)
next
  case (Some n)
  then show ?thesis by (cases n) (simp_all add: truthyNum_def)
qed

text \<open>
  Claim C10. Submitting the add-menu form with an empty or absent name, or with a price
  that is 0, \<open>NaN\<close> or absent, does nothing: no call to the store, the application state
  with its notification unchanged, and the dashboard state, that is the open modal and
  its fields, unchanged. A call goes out exactly when the name is non-empty and the
  price is a number other than 0, and then it is one insert into the menu collection
  of an item with that name and price.
\<close>

theorem handleAddSubmit_guard:
  "(snd (snd (handleAddSubmit rnd r a s)) \<noteq> [] \<longleftrightarrow> validNewMenu (newMenu a))
   \<and> (\<not> validNewMenu (newMenu a) \<longrightarrow> handleAddSubmit rnd r a s = (a, s, []))
   \<and> (validNewMenu (newMenu a) \<longrightarrow>
        (\<exists>item. snd (snd (handleAddSubmit rnd r a s)) = [AddDoc ''menus'' (MenuDoc item)]
                \<and> Some (name item) = nm_name (newMenu a)
                \<and> Some (Num (price item)) = nm_price (newMenu a)))"
proof -
  have g: "(truthyStrOpt (nm_name (newMenu a)) \<and> truthyNum (nm_price (newMenu a)))
             \<longleftrightarrow> validNewMenu (newMenu a)"
    by (simp add: validNewMenu_def truthyStrOpt_iff truthyNum_iff)
  have eq: "handleAddSubmit rnd r a s =
      (if validNewMenu (newMenu a) then
        (let item = \<lparr> name = the (nm_name (newMenu a)),
                       description = strOr (nm_description (newMenu a)) [],
                       price = toNumber (nm_price (newMenu a)),
                       imageUrl = strOr (nm_imageUrl (newMenu a)) (placeholderImage rnd),
                       category = (case nm_category (newMenu a) of
                                     Some c \<Rightarrow> c | None \<Rightarrow> regular),
                       calories = nm_calories (newMenu a),
                       available = (case nm_available (newMenu a) of
                                      Some v \<Rightarrow> v | None \<Rightarrow> True) \<rparr>;
             (s', effs) = addMenu r item s
         in (a\<lparr>isAddModalOpen := False, newMenu := initialNewMenu\<rparr>, s', effs))
      else (a, s, []))" for r
    unfolding handleAddSubmit_def g ..
  show ?thesis
  proof (cases "validNewMenu (newMenu a)")
    case False
    then show ?thesis
      by (simp add: eq)
  next
    case True
    then obtain n p where "nm_name (newMenu a) = Some n" "nm_price (newMenu a) = Some (Num p)"
      by (auto simp: validNewMenu_def)
    then show ?thesis
      using True by (cases r) (simp_all add: eq addMenu_def Let_def toNumber_def)
  qed
qed

text \<open>
  The untouched form (empty name, price 0) and a form whose price field was cleared
  (\<open>parseFloat\<close> of the empty string is \<open>NaN\<close>) submit nothing; a filled form submits
  one insert.
\<close>

theorem handleAddSubmit_guard_witness:
  "\<not> validNewMenu (newMenu \<lparr>isAddModalOpen = True, newMenu = initialNewMenu\<rparr>)
   \<and> handleAddSubmit ''0.25'' Resolved \<lparr>isAddModalOpen = True, newMenu = initialNewMenu\<rparr>
        sampleState
       = (\<lparr>isAddModalOpen = True, newMenu = initialNewMenu\<rparr>, sampleState, [])
   \<and> \<not> validNewMenu
         (newMenu \<lparr>isAddModalOpen = True, newMenu = filledNewMenu\<lparr>nm_price := Some NaN\<rparr>\<rparr>)
   \<and> handleAddSubmit ''0.25'' Resolved
        \<lparr>isAddModalOpen = True, newMenu = filledNewMenu\<lparr>nm_price := Some NaN\<rparr>\<rparr> sampleState
       = (\<lparr>isAddModalOpen = True, newMenu = filledNewMenu\<lparr>nm_price := Some NaN\<rparr>\<rparr>,
          sampleState, [])
   \<and> validNewMenu (newMenu \<lparr>isAddModalOpen = True, newMenu = filledNewMenu\<rparr>)
   \<and> (\<exists>item. snd (snd (handleAddSubmit ''0.25'' Resolved
                          \<lparr>isAddModalOpen = True, newMenu = filledNewMenu\<rparr> sampleState))
                = [AddDoc ''menus'' (MenuDoc item)]
              \<and> name item = ''Tofu Box'' \<and> price item = 7000)"
proof -
  have v0: "\<not> validNewMenu (newMenu \<lparr>isAddModalOpen = True, newMenu = initialNewMenu\<rparr>)"
    by (simp add: validNewMenu_def initialNewMenu_def)
  have v1: "\<not> validNewMenu
              (newMenu \<lparr>isAddModalOpen = True, newMenu = filledNewMenu\<lparr>nm_price := Some NaN\<rparr>\<rparr>)"
    by (simp add: validNewMenu_def filledNewMenu_def)
  have v2: "validNewMenu (newMenu \<lparr>isAddModalOpen = True, newMenu = filledNewMenu\<rparr>)"
    by (simp add: validNewMenu_def filledNewMenu_def)
  have n2: "nm_name filledNewMenu = Some ''Tofu Box''" "nm_price filledNewMenu = Some (Num 7000)"
    by (simp_all add: filledNewMenu_def)
  show ?thesis
    using v0 v1 v2
      handleAddSubmit_guard
        [of "''0.25''" Resolved "\<lparr>isAddModalOpen = True, newMenu = initialNewMenu\<rparr>" sampleState]
      handleAddSubmit_guard
        [of "''0.25''" Resolved
            "\<lparr>isAddModalOpen = True, newMenu = filledNewMenu\<lparr>nm_price := Some NaN\<rparr>\<rparr>"
            sampleState]
      handleAddSubmit_guard
        [of "''0.25''" Resolved "\<lparr>isAddModalOpen = True, newMenu = filledNewMenu\<rparr>" sampleState]
    by (simp add: n2)
qed

section \<open>Admin console: the revenue chart\<close>

lemma map_of_assign: "map_of (assign st k v) = (map_of st)(k \<mapsto> v)"
  by (induction st k v rule: assign.induct) auto

lemma keys_assign:
  "map fst (assign st k v) = (if k \<in> fst ` set st then map fst st else map fst st @ [k])"
  by (induction st k v rule: assign.induct) auto

lemma distinct_assign: "distinct (map fst st) \<Longrightarrow> distinct (map fst (assign st k v))"
  by (simp add: keys_assign)

lemma orZero_Some [simp]: "orZero (Some v) = v"
  by (simp add: orZero_def)

lemma orZero_None [simp]: "orZero None = 0"
  by (simp add: orZero_def)

lemma map_of_chartStep:
  "map_of (chartStep tz st ord) =
     (map_of st)(toLocaleWeekday tz (createdAt ord) \<mapsto>
        orZero (map_of st (toLocaleWeekday tz (createdAt ord))) + totalAmount ord)"
  by (simp add: chartStep_def Let_def map_of_assign)

lemma distinct_chartStep:
  "distinct (map fst st) \<Longrightarrow> distinct (map fst (chartStep tz st ord))"
  by (simp add: chartStep_def Let_def distinct_assign)

lemma filter_key_absent: "k \<notin> f ` set xs \<Longrightarrow> filter (\<lambda>x. f x = k) xs = []"
  by (auto simp: filter_empty_conv)

text \<open>
  The chart is a table from weekday name to the sum of the totals of the orders created
  on that weekday, with each name once.
\<close>

lemma map_of_chart_fold:
  "map_of (foldl (chartStep tz) st os) k =
     (if k \<in> (\<lambda>ord. toLocaleWeekday tz (createdAt ord)) ` set os
      then Some (orZero (map_of st k)
                 + (\<Sum>ord\<leftarrow>filter (\<lambda>ord. toLocaleWeekday tz (createdAt ord) = k) os.
                      totalAmount ord))
      else map_of st k)"
proof (induction os arbitrary: st)
  case Nil
  then show ?case by simp
next
  case (Cons ord os)
  show ?case
    by (auto simp: Cons.IH map_of_chartStep filter_key_absent)
qed

lemma distinct_chart_fold:
  "distinct (map fst st) \<Longrightarrow> distinct (map fst (foldl (chartStep tz) st os))"
  by (induction os arbitrary: st) (simp_all add: distinct_chartStep)

lemma chartData_lookup:
  "map_of (chartData tz os) k =
     (if k \<in> (\<lambda>ord. toLocaleWeekday tz (createdAt ord)) ` set os
      then Some (\<Sum>ord\<leftarrow>filter (\<lambda>ord. toLocaleWeekday tz (createdAt ord) = k) os.
                   totalAmount ord)
      else None)"
  by (simp add: chartData_def map_of_chart_fold)

lemma chartData_distinct: "distinct (map fst (chartData tz os))"
  by (simp add: chartData_def distinct_chart_fold)

lemma weekdayShort_inj:
  assumes "0 \<le> a" "a < 7" "0 \<le> b" "b < 7" "weekdayShort a = weekdayShort b"
  shows "a = b"
proof -
  have a: "a = 0 \<or> a = 1 \<or> a = 2 \<or> a = 3 \<or> a = 4 \<or> a = 5 \<or> a = 6"
    using assms(1,2) by arith
  have b: "b = 0 \<or> b = 1 \<or> b = 2 \<or> b = 3 \<or> b = 4 \<or> b = 5 \<or> b = 6"
    using assms(3,4) by arith
  show ?thesis
    using a b assms(5) by (elim disjE) (simp_all add: weekdayShort_def)
qed

lemma sum_list_filter_mset:
  "(\<Sum>x\<leftarrow>filter P xs. f x) = sum_mset (image_mset f (filter_mset P (mset xs)))"
  by (simp flip: sum_mset_sum_list)

lemma length_eq_card_keys:
  "distinct (map fst xs) \<Longrightarrow> length xs = card (fst ` set xs)"
  using distinct_card [of "map fst xs"] by simp

text \<open>
  Claim C1 as the specification states it, with groups per calendar day, fails: the
  chart keys an order by the weekday name of its creation time in the local zone, so two
  days a week apart share a group. In Seoul time, orders of 10000 and 15000 on Wednesday
  2024-05-01 and one of 5000 on Wednesday 2024-05-08 give one group of 30000.
\<close>

theorem chartData_same_weekday_counterexample:
  "localDay 32400000 (createdAt (sampleOrder 1714532400000 10000)) = 19844
   \<and> localDay 32400000 (createdAt (sampleOrder 1714536000000 15000)) = 19844
   \<and> localDay 32400000 (createdAt (sampleOrder 1715137200000 5000)) = 19851
   \<and> chartData 32400000
        [sampleOrder 1714532400000 10000, sampleOrder 1714536000000 15000,
         sampleOrder 1715137200000 5000]
       = [([CHR 0xEC, CHR 0x88, CHR 0x98], 30000)]"
  by (simp add: chartData_def chartStep_def toLocaleWeekday_def weekdayShort_def
      localDay_def msPerDay_def sampleOrder_def orZero_def)

text \<open>
  Claim C1, amended. For every list made of three orders, two created on local calendar
  day \<open>A\<close> with totals 10000 and 15000 and one created on local calendar day \<open>B\<close> with
  total 5000, in any arrangement, where \<open>A\<close> and \<open>B\<close> fall on different days of the
  week: the chart has exactly two groups, 25000 under the weekday name of \<open>A\<close> and 5000
  under the weekday name of \<open>B\<close>.
\<close>

theorem chartData_groups_by_weekday:
  assumes perm: "mset orders = {#o1, o2, o3#}"
    and days: "localDay tz (createdAt o1) = A" "localDay tz (createdAt o2) = A"
              "localDay tz (createdAt o3) = B"
    and diff: "(A + 4) mod 7 \<noteq> (B + 4) mod 7"
    and totals: "totalAmount o1 = 10000" "totalAmount o2 = 15000" "totalAmount o3 = 5000"
  shows "set (chartData tz orders)
           = {(weekdayShort ((A + 4) mod 7), 25000), (weekdayShort ((B + 4) mod 7), 5000)}
       \<and> length (chartData tz orders) = 2"
proof -
  let ?wd = "\<lambda>ord. toLocaleWeekday tz (createdAt ord)"
  let ?kA = "weekdayShort ((A + 4) mod 7)"
  let ?kB = "weekdayShort ((B + 4) mod 7)"
  have wd: "?wd o1 = ?kA" "?wd o2 = ?kA" "?wd o3 = ?kB"
    using days by (simp_all add: toLocaleWeekday_def)
  have neq: "?kA \<noteq> ?kB"
    using diff weekdayShort_inj [of "(A + 4) mod 7" "(B + 4) mod 7"] by auto
  have elems: "set orders = {o1, o2, o3}"
    using perm by (metis set_mset_mset set_mset_add_mset_insert set_mset_empty)
  have keys: "?wd ` set orders = {?kA, ?kB}"
    using wd by (auto simp: elems)
  have sumA: "(\<Sum>ord\<leftarrow>filter (\<lambda>ord. ?wd ord = ?kA) orders. totalAmount ord) = 25000"
    using wd neq totals by (simp add: sum_list_filter_mset perm)
  have sumB: "(\<Sum>ord\<leftarrow>filter (\<lambda>ord. ?wd ord = ?kB) orders. totalAmount ord) = 5000"
    using wd neq totals by (simp add: sum_list_filter_mset perm)
  have look: "map_of (chartData tz orders) k =
                (if k = ?kA then Some 25000 else if k = ?kB then Some 5000 else None)" for k
    using sumA sumB neq by (simp add: chartData_lookup [where 'a = 'a] keys)
  have dist: "distinct (map fst (chartData tz orders))"
    by (rule chartData_distinct)
  have mem: "(k, v) \<in> set (chartData tz orders)
               \<longleftrightarrow> map_of (chartData tz orders) k = Some v" for k v
    using dist by simp
  have s: "set (chartData tz orders) = {(?kA, 25000), (?kB, 5000)}"
  proof (rule set_eqI)
    fix p :: "string \<times> int"
    obtain k v where p: "p = (k, v)" by (cases p)
    show "p \<in> set (chartData tz orders) \<longleftrightarrow> p \<in> {(?kA, 25000), (?kB, 5000)}"
      unfolding p mem look using neq by auto
  qed
  have "length (chartData tz orders) = card (fst ` set (chartData tz orders))"
    using dist by (rule length_eq_card_keys)
  also have "\<dots> = card {?kA, ?kB}"
    by (simp add: s)
  also have "\<dots> = 2"
    using neq by simp
  finally show ?thesis
    using s by simp
qed

text \<open>
  In Seoul time: 5000 on Thursday 2024-05-02, and 15000 and 10000 on Wednesday
  2024-05-01, listed newest first as the order feed delivers them.
\<close>

theorem chartData_groups_by_weekday_witness:
  "set (chartData 32400000
          [sampleOrder 1714618800000 5000, sampleOrder 1714536000000 15000,
           sampleOrder 1714532400000 10000])
     = {([CHR 0xEC, CHR 0x88, CHR 0x98], 25000), ([CHR 0xEB, CHR 0xAA, CHR 0xA9], 5000)}
   \<and> length (chartData 32400000
          [sampleOrder 1714618800000 5000, sampleOrder 1714536000000 15000,
           sampleOrder 1714532400000 10000]) = 2"
  using chartData_groups_by_weekday
    [of "[sampleOrder 1714618800000 5000, sampleOrder 1714536000000 15000,
          sampleOrder 1714532400000 10000]"
        "sampleOrder 1714532400000 10000" "sampleOrder 1714536000000 15000"
        "sampleOrder 1714618800000 5000" 32400000 19844 19845]
  by (simp add: sampleOrder_def localDay_def msPerDay_def weekdayShort_def)

end
